theory Spec2Isabelle
  imports Main
begin

section \<open>Service generation of openapi-python-generator\<close>

text \<open>
  A shallow embedding of
  \<^verbatim>\<open>src/openapi_python_generator/language_converters/python/service_generator.py\<close>.
  Every Python function of that file is a HOL function of the same name. An exception
  is a value \<open>Inl e\<close> of the result type \<open>error + 'a\<close>; a returned value is \<open>Inr v\<close>.
  Strings are \<open>string\<close>; a Python \<open>None\<close> is \<open>None\<close> of an option type.
\<close>

subsection \<open>Exceptions\<close>

text \<open>
  The exceptions the file can raise itself: \<open>raise Exception(msg)\<close>, an attribute access
  on \<open>None\<close> (\<open>AttributeError\<close>), an index out of range (\<open>IndexError\<close>), \<open>int()\<close> on
  a string that is no integer literal (\<open>ValueError\<close>). \<open>SyntaxError\<close> is what \<open>compile\<close>
  raises on text that does not parse; \<open>OtherError\<close> stands for any other exception a
  collaborator raises.
\<close>

datatype error =
    AttributeError
  | IndexError
  | ValueError
  | Exception string
  | SyntaxError
  | OtherError string

subsection \<open>Python string operations used by the file\<close>

text \<open>\<open>s.startswith(p)\<close>.\<close>

definition startswith :: "string \<Rightarrow> string \<Rightarrow> bool" where
  "startswith s p = (take (length p) s = p)"

text \<open>\<open>s.endswith(p)\<close>; the source does not call it, the statements about rendered
  declarations do.\<close>

definition endswith :: "string \<Rightarrow> string \<Rightarrow> bool" where
  "endswith s p = (drop (length s - length p) s = p \<and> length p \<le> length s)"

text \<open>\<open>sub in s\<close>: \<open>sub\<close> occurs in \<open>s\<close> as a contiguous substring.\<close>

fun py_in :: "string \<Rightarrow> string \<Rightarrow> bool" where
  "py_in sub [] = (sub = [])"
| "py_in sub (c # cs) = (startswith (c # cs) sub \<or> py_in sub cs)"

text \<open>\<open>s.split(sep)\<close> for a separator of one character: the result is never empty.\<close>

fun split :: "char \<Rightarrow> string \<Rightarrow> string list" where
  "split sep [] = [[]]"
| "split sep (c # cs) =
     (if c = sep then [] # split sep cs
      else (case split sep cs of
              w # ws \<Rightarrow> (c # w) # ws
            | [] \<Rightarrow> [[c]]))"

text \<open>\<open>ref.split('/')[-1]\<close>: the index \<open>-1\<close> is in range because \<open>split\<close> never
  returns the empty list (lemma \<open>split_not_Nil\<close>).\<close>

definition split_last :: "string \<Rightarrow> string" where
  "split_last r = last (split (CHR ''/'') r)"

text \<open>\<open>s.replace('-', '_')\<close>.\<close>

definition replace :: "char \<Rightarrow> char \<Rightarrow> string \<Rightarrow> string" where
  "replace old new s = map (\<lambda>c. if c = old then new else c) s"

text \<open>\<open>sep.join(xs)\<close>.\<close>

fun join :: "string \<Rightarrow> string list \<Rightarrow> string" where
  "join sep [] = []"
| "join sep [x] = x"
| "join sep (x # y # ys) = x @ sep @ join sep (y # ys)"

text \<open>
  \<open>int(s)\<close> on a \<open>str\<close>, base 10: surrounding whitespace is stripped, one sign is
  allowed, then digits, where a single underscore may stand between two digits.
  Anything else raises \<open>ValueError\<close>. The model reads ASCII: a string with a
  non-ASCII digit or space is rejected here, and the interpreter's limit on the
  number of digits is not modelled. The statements below only use that \<open>int\<close> either
  returns an integer or raises \<open>ValueError\<close>.
\<close>

definition is_space :: "char \<Rightarrow> bool" where
  "is_space c = (c \<in> set [CHR 0x09, CHR 0x0A, CHR 0x0B, CHR 0x0C, CHR 0x0D,
                            CHR 0x1C, CHR 0x1D, CHR 0x1E, CHR 0x1F, CHR 0x20])"

definition is_digit :: "char \<Rightarrow> bool" where
  "is_digit c = (c \<in> set ''0123456789'')"

definition digit_val :: "char \<Rightarrow> int" where
  "digit_val c = int (length (takeWhile (\<lambda>d. d \<noteq> c) ''0123456789''))"

definition strip :: "string \<Rightarrow> string" where
  "strip s = rev (dropWhile is_space (rev (dropWhile is_space s)))"

definition digits_ok :: "string \<Rightarrow> bool" where
  "digits_ok s =
     (s \<noteq> [] \<and> list_all (\<lambda>c. is_digit c \<or> c = CHR ''_'') s
      \<and> is_digit (hd s) \<and> is_digit (last s) \<and> \<not> py_in ''__'' s)"

definition dec_value :: "string \<Rightarrow> int" where
  "dec_value s = foldl (\<lambda>acc c. 10 * acc + digit_val c) 0 (filter (\<lambda>c. c \<noteq> CHR ''_'') s)"

definition py_int :: "string \<Rightarrow> error + int" where
  "py_int s =
     (let t = strip s;
          neg = (t \<noteq> [] \<and> hd t = CHR ''-'');
          body = (if t \<noteq> [] \<and> (hd t = CHR ''-'' \<or> hd t = CHR ''+'') then tl t else t)
      in if digits_ok body
         then Inr (if neg then - dec_value body else dec_value body)
         else Inl ValueError)"

text \<open>\<open>str(tag)\<close> inside an f-string, for a tag that is a string or \<open>None\<close>.\<close>

fun py_str :: "string option \<Rightarrow> string" where
  "py_str None = ''None''"
| "py_str (Some s) = s"

subsection \<open>The input: operations of the parsed API description\<close>

text \<open>
  Modelled from the spec: the classes \<open>Reference\<close>, \<open>Schema\<close>, \<open>MediaType\<close>,
  \<open>RequestBody\<close>, \<open>Response\<close>, \<open>Parameter\<close>, \<open>Operation\<close> and \<open>PathItem\<close> are imported
  from the package \<open>openapi_schema_pydantic\<close>, which is not part of the sources. The
  records hold the attributes the file reads, named as the file names them (the
  attribute \<open>content\<close> of a request body is \<open>rb_content\<close>, that of a response
  \<open>resp_content\<close>). A \<open>Schema\<close> is opaque to the file: it is only handed to the
  type-conversion collaborator, so it is a type parameter \<open>'s\<close>.

  A value the file tests with \<open>isinstance(_, Reference)\<close> and
  \<open>isinstance(_, Schema)\<close> is a reference, a schema, or neither (\<open>None\<close>).
  A dictionary whose order the file never reads is a map; \<open>responses\<close>, which is
  read in insertion order, is a list of key/value pairs.
\<close>

record Reference =
  ref :: string

datatype 's schema_or_ref =
    IsReference Reference
  | IsSchema 's
  | NoSchema

record 's MediaType =
  media_type_schema :: "'s schema_or_ref"

record 's RequestBody =
  rb_content :: "string \<rightharpoonup> 's MediaType"

record 's Response =
  resp_content :: "(string \<rightharpoonup> 's MediaType) option"

record 's Parameter =
  name :: string
  param_in :: string
  required :: bool
  param_schema :: "'s schema_or_ref"

record 's Operation =
  operationId :: "string option"
  parameters :: "'s Parameter list option"
  requestBody :: "'s RequestBody option"
  responses :: "(string \<times> 's Response) list option"
  tags :: "string list option"

record 's PathItem =
  get :: "'s Operation option"
  post :: "'s Operation option"
  put :: "'s Operation option"
  delete :: "'s Operation option"
  options :: "'s Operation option"
  head :: "'s Operation option"
  patch :: "'s Operation option"
  trace :: "'s Operation option"

subsection \<open>The output: descriptors and services\<close>

text \<open>
  Modelled from the spec: \<open>TypeConversion\<close>, \<open>OpReturnType\<close>, \<open>ServiceOperation\<close>,
  \<open>Service\<close> and \<open>LibraryConfig\<close> are declared in \<open>openapi_python_generator.models\<close>,
  which is not part of the sources. The fields are those of the spec's data model
  and of the constructor calls in the file. The status code is a string or an
  integer. \<open>complex_type\<close> is a boolean: the file passes the string \<open>"False"\<close> in two
  places, which the boolean field holds as \<open>False\<close>. \<open>list_type\<close> and \<open>tag\<close> are unset
  (\<open>None\<close>) unless given. The fields of \<open>ServiceOperation\<close> carry the prefix \<open>so_\<close>
  and those of \<open>Service\<close> the prefix \<open>svc_\<close>, which leaves the plain names to the
  local variables of the functions.
\<close>

record TypeConversion =
  original_type :: string
  converted_type :: string
  import_types :: "string list option"

datatype status = StatusStr string | StatusInt int

record OpReturnType =
  type :: "TypeConversion option"
  status_code :: status
  complex_type :: bool
  list_type :: "string option"

record 's ServiceOperation =
  so_params :: "string list"
  so_operation_id :: string
  so_query_params :: "string list"
  so_return_type :: OpReturnType
  so_operation :: "'s Operation"
  so_pathItem :: "'s PathItem"
  so_content :: string
  so_async_client :: bool
  so_body_param :: "string option"
  so_path_name :: string
  so_method :: string
  so_tag :: "string option"

record 's Service =
  svc_file_name :: string
  svc_operations :: "'s ServiceOperation list"
  svc_content :: string
  svc_async_client :: bool
  svc_library_import :: string

record LibraryConfig =
  template_name :: string
  include_sync :: bool
  include_async :: bool
  library_name :: string

subsection \<open>Collaborators\<close>

text \<open>
  What the file calls and does not define, taken as parameters:
  \<^item> \<open>type_converter(schema, required)\<close> of \<open>model_generator\<close>. Its argument is a schema,
    or \<open>None\<close> where the file passes on a request body's schema that is no
    reference without testing it. It returns a \<open>TypeConversion\<close> or raises.
  \<^item> \<open>JINJA_ENV.get_template(name).render(**so.dict())\<close>: the rendered text of a
    descriptor, or an exception.
  \<^item> the built-in \<open>compile(text, "<string>", "exec")\<close>: \<open>None\<close> when the text compiles,
    the exception otherwise.
\<close>

record 's Collaborators =
  type_converter :: "'s option \<Rightarrow> bool \<Rightarrow> error + TypeConversion"
  render_template :: "string \<Rightarrow> 's ServiceOperation \<Rightarrow> error + string"
  compile :: "string \<Rightarrow> error option"

subsection \<open>\<open>generate_body_param\<close>\<close>

definition generate_body_param :: "'s Operation \<Rightarrow> string option" where
  "generate_body_param operation =
     (if requestBody operation = None then None else Some ''data'')"

subsection \<open>\<open>generate_params\<close>\<close>

text \<open>The inner function \<open>_generate_params_from_content\<close>: the declaration of the
  body parameter. A schema that is no reference goes to the collaborator untested.\<close>

fun generate_params_from_content ::
  "'s Collaborators \<Rightarrow> 's schema_or_ref \<Rightarrow> error + string" where
  "generate_params_from_content env (IsReference r) =
     Inr (''data : '' @ split_last (ref r))"
| "generate_params_from_content env (IsSchema s) =
     (case type_converter env (Some s) True of
        Inl e \<Rightarrow> Inl e
      | Inr tc \<Rightarrow> Inr (''data : '' @ converted_type tc))"
| "generate_params_from_content env NoSchema =
     (case type_converter env None True of
        Inl e \<Rightarrow> Inl e
      | Inr tc \<Rightarrow> Inr (''data : '' @ converted_type tc))"

text \<open>The body of the loop over \<open>operation.parameters\<close>: the declaration appended for
  one parameter. In the \<open>else\<close> branch the file reads \<open>param.param_schema.ref\<close>, which
  raises \<open>AttributeError\<close> on \<open>None\<close>.\<close>

definition param_default :: "'s Parameter \<Rightarrow> string" where
  "param_default param = (if required param then [] else '' = None'')"

definition param_decl :: "'s Collaborators \<Rightarrow> 's Parameter \<Rightarrow> error + string" where
  "param_decl env param =
     (case param_schema param of
        IsSchema s \<Rightarrow>
          (case type_converter env (Some s) (required param) of
             Inl e \<Rightarrow> Inl e
           | Inr tc \<Rightarrow>
               Inr (name param @ '' : '' @ converted_type tc @ param_default param))
      | IsReference r \<Rightarrow>
          Inr (name param @ '' : '' @ split_last (ref r) @ param_default param)
      | NoSchema \<Rightarrow> Inl AttributeError)"

text \<open>The loop itself: \<open>params\<close> is the list built so far.\<close>

fun params_loop ::
  "'s Collaborators \<Rightarrow> 's Parameter list \<Rightarrow> string list \<Rightarrow> error + string list" where
  "params_loop env [] params = Inr params"
| "params_loop env (param # rest) params =
     (case param_decl env param of
        Inl e \<Rightarrow> Inl e
      | Inr d \<Rightarrow> params_loop env rest (params @ [d]))"

text \<open>The message of the exception: \<open>requestBody.content\<close> is a dictionary, so
  \<open>type(...)\<close> prints as \<open><class 'dict'>\<close>.\<close>

definition unknown_body_media_type :: string where
  "unknown_body_media_type =
     ''Unknown media type schema type: <class '' @ [CHR 0x27] @ ''dict'' @ [CHR 0x27] @ ''>''"

definition generate_params :: "'s Collaborators \<Rightarrow> 's Operation \<Rightarrow> error + string list" where
  "generate_params env operation =
     (if parameters operation = None \<and> requestBody operation = None then Inr []
      else
        (case (case parameters operation of
                 None \<Rightarrow> Inr []
               | Some ps \<Rightarrow> params_loop env ps []) of
           Inl e \<Rightarrow> Inl e
         | Inr params \<Rightarrow>
             (case requestBody operation of
                None \<Rightarrow> Inr params
              | Some rb \<Rightarrow>
                  (case rb_content rb ''application/json'' of
                     Some mt \<Rightarrow>
                       (case generate_params_from_content env (media_type_schema mt) of
                          Inl e \<Rightarrow> Inl e
                        | Inr d \<Rightarrow> Inr (params @ [d]))
                   | None \<Rightarrow> Inl (Exception unknown_body_media_type)))))"

subsection \<open>\<open>generate_operation_id\<close>\<close>

text \<open>\<open>operation.operationId.replace('-', '_')\<close>: on \<open>None\<close> the attribute access
  raises. The argument \<open>http_op\<close> is not used.\<close>

definition generate_operation_id :: "'s Operation \<Rightarrow> string \<Rightarrow> error + string" where
  "generate_operation_id operation http_op =
     (case operationId operation of
        None \<Rightarrow> Inl AttributeError
      | Some oid \<Rightarrow> Inr (replace (CHR ''-'') (CHR ''_'') oid))"

subsection \<open>\<open>generate_query_params\<close>\<close>

fun query_params_loop :: "'s Parameter list \<Rightarrow> string list \<Rightarrow> string list" where
  "query_params_loop [] params = params"
| "query_params_loop (param # rest) params =
     (if param_in param = ''query''
      then query_params_loop rest
             (params @ [[CHR 0x27] @ name param @ [CHR 0x27] @ '' : '' @ name param])
      else query_params_loop rest params)"

definition generate_query_params :: "'s Operation \<Rightarrow> string list" where
  "generate_query_params operation =
     (case parameters operation of
        None \<Rightarrow> []
      | Some ps \<Rightarrow> query_params_loop ps [])"

subsection \<open>\<open>generate_return_type\<close>\<close>

text \<open>The list comprehension \<open>good_responses\<close>: the entries whose key starts with
  \<open>"2"\<close>, in the order of the dictionary, each key converted by \<open>int\<close>. The first
  key that is no integer literal raises \<open>ValueError\<close>, wherever it stands.\<close>

fun good_responses :: "(string \<times> 'r) list \<Rightarrow> error + (int \<times> 'r) list" where
  "good_responses [] = Inr []"
| "good_responses ((key, response) # rest) =
     (if startswith key ''2''
      then (case py_int key of
              Inl e \<Rightarrow> Inl e
            | Inr n \<Rightarrow>
                (case good_responses rest of
                   Inl e \<Rightarrow> Inl e
                 | Inr xs \<Rightarrow> Inr ((n, response) # xs)))
      else good_responses rest)"

definition no_return_type :: "status \<Rightarrow> OpReturnType" where
  "no_return_type sc =
     \<lparr>type = None, status_code = sc, complex_type = False, list_type = None\<rparr>"

text \<open>Lines 125 to 130: \<open>import_types[0]\<close> is read when the original type contains
  \<open>"array"\<close> and \<open>import_types\<close> is a list, empty or not.\<close>

definition list_type_of :: "TypeConversion \<Rightarrow> error + string option" where
  "list_type_of converted_result =
     (if py_in ''array'' (original_type converted_result)
         \<and> import_types converted_result \<noteq> None
      then (case the (import_types converted_result) of
              [] \<Rightarrow> Inl IndexError
            | x # _ \<Rightarrow> Inr (Some x))
      else Inr None)"

text \<open>Lines 111 to 141, for the media type found under \<open>"application/json"\<close>
  (\<open>None\<close> when \<open>content.get\<close> finds no such key) and the chosen status code.\<close>

definition return_type_of_media ::
  "'s Collaborators \<Rightarrow> int \<Rightarrow> 's MediaType option \<Rightarrow> error + OpReturnType" where
  "return_type_of_media env code media =
     (case media of
        None \<Rightarrow> Inl (Exception ''Unknown media type schema type'')
      | Some mt \<Rightarrow>
          (case media_type_schema mt of
             IsReference r \<Rightarrow>
               Inr \<lparr>type = Some \<lparr>original_type = ref r,
                                converted_type = split_last (ref r),
                                import_types = Some [split_last (ref r)]\<rparr>,
                    status_code = StatusInt code,
                    complex_type = True,
                    list_type = None\<rparr>
           | IsSchema s \<Rightarrow>
               (case type_converter env (Some s) True of
                  Inl e \<Rightarrow> Inl e
                | Inr converted_result \<Rightarrow>
                    (case list_type_of converted_result of
                       Inl e \<Rightarrow> Inl e
                     | Inr lt \<Rightarrow>
                         Inr \<lparr>type = Some converted_result,
                              status_code = StatusInt code,
                              complex_type =
                                (import_types converted_result \<noteq> None
                                 \<and> length (the (import_types converted_result)) > 0),
                              list_type = lt\<rparr>))
           | NoSchema \<Rightarrow> Inl (Exception ''Unknown media type schema type'')))"

definition generate_return_type ::
  "'s Collaborators \<Rightarrow> 's Operation \<Rightarrow> error + OpReturnType" where
  "generate_return_type env operation =
     (case responses operation of
        None \<Rightarrow> Inr (no_return_type (StatusStr ''200''))
      | Some rs \<Rightarrow>
          (case good_responses rs of
             Inl e \<Rightarrow> Inl e
           | Inr [] \<Rightarrow> Inr (no_return_type (StatusStr ''200''))
           | Inr ((code, response) # _) \<Rightarrow>
               (case resp_content response of
                  None \<Rightarrow> Inr (no_return_type (StatusInt code))
                | Some content \<Rightarrow>
                    return_type_of_media env code (content ''application/json''))))"

subsection \<open>\<open>generate_services\<close>\<close>

definition HTTP_OPERATIONS :: "string list" where
  "HTTP_OPERATIONS =
     [''get'', ''post'', ''put'', ''delete'', ''options'', ''head'', ''patch'', ''trace'']"

text \<open>\<open>path.__getattribute__(http_operation)\<close>, for the attributes the loop reads.\<close>

definition getattribute :: "'s PathItem \<Rightarrow> string \<Rightarrow> error + 's Operation option" where
  "getattribute path attr =
     (if attr = ''get'' then Inr (get path)
      else if attr = ''post'' then Inr (post path)
      else if attr = ''put'' then Inr (put path)
      else if attr = ''delete'' then Inr (delete path)
      else if attr = ''options'' then Inr (options path)
      else if attr = ''head'' then Inr (head path)
      else if attr = ''patch'' then Inr (patch path)
      else if attr = ''trace'' then Inr (trace path)
      else Inl AttributeError)"

text \<open>
  The inner function \<open>generate_service_operation\<close>. Its free variables
  \<open>library_config\<close>, \<open>http_operation\<close> and \<open>path\<close> are arguments here. The descriptor is
  rendered before the tag is set. A \<open>SyntaxError\<close> of \<open>compile\<close> is caught (the file
  prints a message, which the model leaves out); any other exception goes on.
\<close>

definition generate_service_operation ::
  "'s Collaborators \<Rightarrow> LibraryConfig \<Rightarrow> string \<Rightarrow> 's PathItem \<Rightarrow>
   's Operation \<Rightarrow> string \<Rightarrow> bool \<Rightarrow> error + 's ServiceOperation" where
  "generate_service_operation env library_config http_operation path op path_name async_type =
     (case generate_params env op of
        Inl e \<Rightarrow> Inl e
      | Inr params \<Rightarrow>
     (case generate_operation_id op http_operation of
        Inl e \<Rightarrow> Inl e
      | Inr operation_id \<Rightarrow>
     (let query_params = generate_query_params op in
     (case generate_return_type env op of
        Inl e \<Rightarrow> Inl e
      | Inr return_type \<Rightarrow>
     (let body_param = generate_body_param op;
          so = \<lparr>so_params = params,
                so_operation_id =
                  (if async_type then ''async_'' @ operation_id else operation_id),
                so_query_params = query_params,
                so_return_type = return_type,
                so_operation = op,
                so_pathItem = path,
                so_content = [],
                so_async_client = async_type,
                so_body_param = body_param,
                so_path_name = path_name,
                so_method = http_operation,
                so_tag = None\<rparr>
      in
     (case render_template env (template_name library_config) so of
        Inl e \<Rightarrow> Inl e
      | Inr text \<Rightarrow>
     (let so1 = so\<lparr>so_content := text\<rparr>;
          so2 = (case tags op of
                   Some (t # _) \<Rightarrow> so1\<lparr>so_tag := Some t\<rparr>
                 | _ \<Rightarrow> so1)
      in
     (case compile env (so_content so2) of
        None \<Rightarrow> Inr so2
      | Some SyntaxError \<Rightarrow> Inr so2
      | Some e \<Rightarrow> Inl e))))))))"

text \<open>The body of the inner loop for an operation that is present: the descriptors
  appended to \<open>service_ops\<close>, the synchronous one first.\<close>

definition append_operation ::
  "'s Collaborators \<Rightarrow> LibraryConfig \<Rightarrow> string \<Rightarrow> 's PathItem \<Rightarrow> string \<Rightarrow>
   's Operation \<Rightarrow> 's ServiceOperation list \<Rightarrow> error + 's ServiceOperation list" where
  "append_operation env library_config path_name path http_operation op service_ops =
     (case (if include_sync library_config
            then (case generate_service_operation env library_config http_operation path
                         op path_name False of
                    Inl e \<Rightarrow> Inl e
                  | Inr sync_so \<Rightarrow> Inr (service_ops @ [sync_so]))
            else Inr service_ops) of
        Inl e \<Rightarrow> Inl e
      | Inr service_ops1 \<Rightarrow>
          (if include_async library_config
           then (case generate_service_operation env library_config http_operation path
                        op path_name True of
                   Inl e \<Rightarrow> Inl e
                 | Inr async_so \<Rightarrow> Inr (service_ops1 @ [async_so]))
           else Inr service_ops1))"

text \<open>\<open>for http_operation in HTTP_OPERATIONS\<close>; an absent operation is skipped.\<close>

fun http_loop ::
  "'s Collaborators \<Rightarrow> LibraryConfig \<Rightarrow> string \<Rightarrow> 's PathItem \<Rightarrow> string list \<Rightarrow>
   's ServiceOperation list \<Rightarrow> error + 's ServiceOperation list" where
  "http_loop env library_config path_name path [] service_ops = Inr service_ops"
| "http_loop env library_config path_name path (http_operation # rest) service_ops =
     (case getattribute path http_operation of
        Inl e \<Rightarrow> Inl e
      | Inr None \<Rightarrow> http_loop env library_config path_name path rest service_ops
      | Inr (Some op) \<Rightarrow>
          (case append_operation env library_config path_name path http_operation op
                  service_ops of
             Inl e \<Rightarrow> Inl e
           | Inr service_ops1 \<Rightarrow>
               http_loop env library_config path_name path rest service_ops1))"

text \<open>\<open>for path_name, path in paths.items()\<close>: \<open>paths\<close> in the order of the dictionary.\<close>

fun paths_loop ::
  "'s Collaborators \<Rightarrow> LibraryConfig \<Rightarrow> (string \<times> 's PathItem) list \<Rightarrow>
   's ServiceOperation list \<Rightarrow> error + 's ServiceOperation list" where
  "paths_loop env library_config [] service_ops = Inr service_ops"
| "paths_loop env library_config ((path_name, path) # rest) service_ops =
     (case http_loop env library_config path_name path HTTP_OPERATIONS service_ops of
        Inl e \<Rightarrow> Inl e
      | Inr service_ops1 \<Rightarrow> paths_loop env library_config rest service_ops1)"

text \<open>The two \<open>Service(...)\<close> calls, for one tag.\<close>

definition sync_service ::
  "LibraryConfig \<Rightarrow> 's ServiceOperation list \<Rightarrow> string option \<Rightarrow> 's Service" where
  "sync_service library_config service_ops tag =
     \<lparr>svc_file_name = py_str tag @ ''_service'',
      svc_operations =
        filter (\<lambda>so. so_tag so = tag \<and> \<not> so_async_client so) service_ops,
      svc_content =
        join [CHR 0x0A]
          (map so_content
             (filter (\<lambda>so. so_tag so = tag \<and> \<not> so_async_client so) service_ops)),
      svc_async_client = False,
      svc_library_import = library_name library_config\<rparr>"

definition async_service ::
  "LibraryConfig \<Rightarrow> 's ServiceOperation list \<Rightarrow> string option \<Rightarrow> 's Service" where
  "async_service library_config service_ops tag =
     \<lparr>svc_file_name = ''async_'' @ py_str tag @ ''_service'',
      svc_operations =
        filter (\<lambda>so. so_tag so = tag \<and> so_async_client so) service_ops,
      svc_content =
        join [CHR 0x0A]
          (map so_content
             (filter (\<lambda>so. so_tag so = tag \<and> so_async_client so) service_ops)),
      svc_async_client = True,
      svc_library_import = library_name library_config\<rparr>"

text \<open>
  \<open>tags = set([so.tag for so in service_ops])\<close>. Python leaves the order in which a
  set is iterated open; both loops over \<open>tags\<close> see the same order. The model lists
  the tags in the order of their last occurrence (\<open>remdups\<close>); no statement below
  depends on that order.
\<close>

definition tag_set :: "'s ServiceOperation list \<Rightarrow> string option list" where
  "tag_set service_ops = remdups (map so_tag service_ops)"

definition services_of ::
  "LibraryConfig \<Rightarrow> 's ServiceOperation list \<Rightarrow> 's Service list" where
  "services_of library_config service_ops =
     map (sync_service library_config service_ops) (tag_set service_ops)
     @ map (async_service library_config service_ops) (tag_set service_ops)"

definition generate_services ::
  "'s Collaborators \<Rightarrow> (string \<times> 's PathItem) list \<Rightarrow> LibraryConfig \<Rightarrow>
   error + 's Service list" where
  "generate_services env paths library_config =
     (case paths_loop env library_config paths [] of
        Inl e \<Rightarrow> Inl e
      | Inr service_ops \<Rightarrow> Inr (services_of library_config service_ops))"

subsection \<open>Notions used in the statements\<close>

text \<open>The parameters the loops of \<open>generate_params\<close> and \<open>generate_query_params\<close>
  run over: none when \<open>operation.parameters\<close> is \<open>None\<close>.\<close>

definition declared :: "'s Operation \<Rightarrow> 's Parameter list" where
  "declared operation = (case parameters operation of None \<Rightarrow> [] | Some ps \<Rightarrow> ps)"

text \<open>The entries of \<open>responses\<close> whose key starts with \<open>"2"\<close>, in their order.\<close>

definition two_xx :: "(string \<times> 'r) list \<Rightarrow> (string \<times> 'r) list" where
  "two_xx rs = filter (\<lambda>(key, response). startswith key ''2'') rs"

subsection \<open>Concrete inputs\<close>

text \<open>
  Inputs on which the statements below are evaluated. A schema is given by a
  string. The example collaborator converts two array schemas (one with a named
  element type, one without) and maps every other schema to an integer type; the
  example template prints one line; every text compiles.
\<close>

definition ex_type_converter :: "string option \<Rightarrow> bool \<Rightarrow> error + TypeConversion" where
  "ex_type_converter schema req =
     (case schema of
        None \<Rightarrow> Inl AttributeError
      | Some s \<Rightarrow>
          if s = ''array of Pet''
          then Inr \<lparr>original_type = ''array<Pet>'', converted_type = ''List[Pet]'',
                    import_types = Some [''Pet'']\<rparr>
          else if s = ''array of integer''
          then Inr \<lparr>original_type = ''array<integer>'', converted_type = ''List[int]'',
                    import_types = Some []\<rparr>
          else Inr \<lparr>original_type = s,
                    converted_type = (if req then ''int'' else ''Optional[int]''),
                    import_types = None\<rparr>)"

definition ex_env :: "string Collaborators" where
  "ex_env =
     \<lparr>type_converter = ex_type_converter,
      render_template = (\<lambda>template so. Inr (''def '' @ so_operation_id so @ ''(): pass'')),
      compile = (\<lambda>text. None)\<rparr>"

definition ex_config :: "bool \<Rightarrow> bool \<Rightarrow> LibraryConfig" where
  "ex_config sync async =
     \<lparr>template_name = ''httpx.jinja2'', include_sync = sync, include_async = async,
      library_name = ''httpx''\<rparr>"

definition ex_operation :: "string Operation" where
  "ex_operation =
     \<lparr>operationId = Some ''list-pets'', parameters = None, requestBody = None,
      responses = None, tags = Some [''pets'']\<rparr>"

definition ex_path :: "string Operation option \<Rightarrow> string PathItem" where
  "ex_path op =
     \<lparr>get = op, post = None, put = None, delete = None, options = None, head = None,
      patch = None, trace = None\<rparr>"

definition ex_param_petId :: "string Parameter" where
  "ex_param_petId =
     \<lparr>name = ''petId'', param_in = ''path'', required = True,
      param_schema = IsSchema ''integer''\<rparr>"

definition ex_param_limit :: "string Parameter" where
  "ex_param_limit =
     \<lparr>name = ''limit'', param_in = ''query'', required = False,
      param_schema = IsSchema ''integer''\<rparr>"

definition ex_param_owner :: "string Parameter" where
  "ex_param_owner =
     \<lparr>name = ''owner'', param_in = ''query'', required = True,
      param_schema = IsReference \<lparr>ref = ''#/components/schemas/Owner''\<rparr>\<rparr>"

text \<open>A required parameter whose reference names a type that ends with
  \<open>" = None"\<close>.\<close>

definition ex_param_odd :: "string Parameter" where
  "ex_param_odd =
     \<lparr>name = ''pet'', param_in = ''query'', required = True,
      param_schema = IsReference \<lparr>ref = ''#/components/schemas/Pet = None''\<rparr>\<rparr>"

definition ex_json :: "string schema_or_ref \<Rightarrow> (string \<rightharpoonup> string MediaType)" where
  "ex_json sch = [''application/json'' \<mapsto> \<lparr>media_type_schema = sch\<rparr>]"

definition ex_text :: "string \<rightharpoonup> string MediaType" where
  "ex_text = [''text/plain'' \<mapsto> \<lparr>media_type_schema = IsSchema ''string''\<rparr>]"

definition ex_response :: "(string \<rightharpoonup> string MediaType) option \<Rightarrow> string Response" where
  "ex_response content = \<lparr>resp_content = content\<rparr>"

definition ex_pet_ref :: "string schema_or_ref" where
  "ex_pet_ref = IsReference \<lparr>ref = ''#/components/schemas/Pet''\<rparr>"


text \<open>An operation whose request body has only a \<open>text/plain\<close> media type, and an
  operation without \<open>operationId\<close>.\<close>

definition ex_operation_text_body :: "string Operation" where
  "ex_operation_text_body = ex_operation\<lparr>requestBody := Some \<lparr>rb_content = ex_text\<rparr>\<rparr>"

definition ex_operation_anonymous :: "string Operation" where
  "ex_operation_anonymous = ex_operation\<lparr>operationId := None\<rparr>"

text \<open>Responses \<open>404\<close> (plain text), \<open>200\<close> (JSON, a reference to \<open>Pet\<close>) and \<open>201\<close>
  (no content), in this order; and a single response \<open>200\<close> whose JSON schema is
  inline.\<close>

definition ex_responses_pet :: "(string \<times> string Response) list" where
  "ex_responses_pet =
     [(''404'', ex_response (Some ex_text)),
      (''200'', ex_response (Some (ex_json ex_pet_ref))),
      (''201'', ex_response None)]"

definition ex_array_response :: "string \<Rightarrow> (string \<times> string Response) list" where
  "ex_array_response s = [(''200'', ex_response (Some (ex_json (IsSchema s))))]"

text \<open>A descriptor belongs to a variant that the configuration enables.\<close>

definition variant_enabled :: "LibraryConfig \<Rightarrow> 's ServiceOperation \<Rightarrow> bool" where
  "variant_enabled library_config so =
     (if so_async_client so then include_async library_config
      else include_sync library_config)"

text \<open>One path with the operation \<open>list-pets\<close>, tagged \<open>pets\<close>, under \<open>get\<close>.\<close>

definition ex_paths :: "(string \<times> string PathItem) list" where
  "ex_paths = [(''/pets'', ex_path (Some ex_operation))]"

section \<open>Properties\<close>

subsection \<open>Evaluation on concrete inputs\<close>

lemmas eval_strings =
  startswith_def endswith_def split_last_def replace_def py_int_def strip_def is_space_def
  digits_ok_def is_digit_def dec_value_def digit_val_def

lemmas eval_examples =
  ex_type_converter_def ex_env_def ex_config_def ex_operation_def ex_path_def
  ex_param_petId_def ex_param_limit_def ex_param_owner_def ex_param_odd_def ex_json_def
  ex_text_def ex_response_def ex_pet_ref_def

lemmas eval_services =
  ex_paths_def generate_services_def HTTP_OPERATIONS_def getattribute_def ex_path_def
  ex_config_def append_operation_def generate_service_operation_def generate_params_def
  ex_operation_def generate_operation_id_def replace_def generate_query_params_def
  generate_return_type_def no_return_type_def generate_body_param_def ex_env_def
  services_of_def tag_set_def sync_service_def async_service_def

subsection \<open>Strings\<close>

lemma split_not_Nil: "split sep s \<noteq> []"
  by (induction s) (auto split: list.splits)




subsection \<open>The loops of parameter resolution\<close>

lemma query_params_loop_eq:
  "query_params_loop ps acc =
     acc @ map (\<lambda>p. [CHR 0x27] @ name p @ [CHR 0x27] @ '' : '' @ name p)
             (filter (\<lambda>p. param_in p = ''query'') ps)"
  by (induction ps arbitrary: acc) auto


lemma params_loop_total:
  "(\<forall>p \<in> set ps. \<exists>d. param_decl env p = Inr d) \<Longrightarrow> \<exists>out. params_loop env ps acc = Inr out"
  by (induction ps arbitrary: acc) auto



subsection \<open>Query parameters\<close>

text \<open>
  C7. For every operation, the query-parameter list holds exactly one entry
  \<open>'name' : name\<close> for each declared parameter whose location is \<open>"query"\<close>, in the
  order of declaration, whatever its \<open>required\<close> flag, and nothing for a parameter
  at another location.
\<close>

theorem generate_query_params_exact:
  "generate_query_params operation =
     map (\<lambda>p. [CHR 0x27] @ name p @ [CHR 0x27] @ '' : '' @ name p)
       (filter (\<lambda>p. param_in p = ''query'') (declared operation))"
  by (simp add: generate_query_params_def declared_def query_params_loop_eq
           split: option.splits)

text \<open>On three declared parameters, of which the second and third are query
  parameters, one optional and one required.\<close>

lemma generate_query_params_example:
  "generate_query_params
     (ex_operation\<lparr>parameters := Some [ex_param_petId, ex_param_limit, ex_param_owner]\<rparr>)
   = [[CHR 0x27] @ ''limit'' @ [CHR 0x27] @ '' : limit'',
      [CHR 0x27] @ ''owner'' @ [CHR 0x27] @ '' : owner'']"
  by (simp add: generate_query_params_def eval_examples)

subsection \<open>The parameter list\<close>



text \<open>When every declared parameter has a declaration and the request body, if there
  is one, has a JSON media type whose declaration is produced, a list is returned.\<close>

lemma generate_params_returns:
  assumes "\<forall>p \<in> set (declared operation). \<exists>d. param_decl env p = Inr d"
    and "\<forall>rb. requestBody operation = Some rb \<longrightarrow>
           (\<exists>mt d. rb_content rb ''application/json'' = Some mt
              \<and> generate_params_from_content env (media_type_schema mt) = Inr d)"
  shows "\<exists>params. generate_params env operation = Inr params"
proof -
  have "\<exists>out. (case parameters operation of None \<Rightarrow> Inr [] | Some ps \<Rightarrow> params_loop env ps [])
          = Inr out"
    using assms(1) params_loop_total [of _ env "[]"]
    by (cases "parameters operation") (auto simp: declared_def)
  then show ?thesis
    using assms(2)
    by (cases "requestBody operation") (auto simp: generate_params_def)
qed

subsection \<open>The default of a parameter\<close>




subsection \<open>Errors go through descriptor construction and generation\<close>

text \<open>An error of \<open>generate_params\<close> is the error of \<open>generate_service_operation\<close>; an
  operation whose descriptor cannot be built makes \<open>generate_services\<close> fail, when
  the loops reach it and a variant is enabled.\<close>

lemma service_operation_params_error:
  "generate_params env op = Inl e \<Longrightarrow>
     generate_service_operation env library_config http_operation path op path_name async_type
       = Inl e"
  by (simp add: generate_service_operation_def)

lemma service_operation_id_error:
  "operationId op = None \<Longrightarrow>
     \<exists>e. generate_service_operation env library_config http_operation path op path_name
            async_type = Inl e"
  by (cases "generate_params env op")
     (simp_all add: generate_service_operation_def generate_operation_id_def)

lemma append_operation_error:
  assumes "\<And>async_type. \<exists>e. generate_service_operation env library_config http_operation
              path op path_name async_type = Inl e"
    and "include_sync library_config \<or> include_async library_config"
  shows "\<exists>e. append_operation env library_config path_name path http_operation op service_ops
           = Inl e"
proof -
  from assms(1) obtain e1 e2 where
    "generate_service_operation env library_config http_operation path op path_name False
       = Inl e1"
    "generate_service_operation env library_config http_operation path op path_name True
       = Inl e2"
    by blast
  with assms(2) show ?thesis
    by (auto simp: append_operation_def)
qed

lemma http_loop_error:
  assumes "http_operation \<in> set hs"
    and "getattribute path http_operation = Inr (Some op)"
    and "\<And>async_type. \<exists>e. generate_service_operation env library_config http_operation
              path op path_name async_type = Inl e"
    and "include_sync library_config \<or> include_async library_config"
  shows "\<exists>e. http_loop env library_config path_name path hs service_ops = Inl e"
  using assms(1)
proof (induction hs arbitrary: service_ops)
  case Nil
  then show ?case by simp
next
  case (Cons h hs)
  show ?case
  proof (cases "h = http_operation")
    case True
    then show ?thesis
      using assms(2) append_operation_error [OF assms(3) assms(4), of service_ops]
      by auto
  next
    case False
    with Cons.prems have "http_operation \<in> set hs" by simp
    then have "\<And>ops. \<exists>e. http_loop env library_config path_name path hs ops = Inl e"
      by (rule Cons.IH)
    then show ?thesis
      by (auto split: sum.splits option.splits)
  qed
qed

lemma paths_loop_error:
  assumes "(path_name, path) \<in> set paths"
    and "\<And>service_ops. \<exists>e. http_loop env library_config path_name path HTTP_OPERATIONS
             service_ops = Inl e"
  shows "\<exists>e. paths_loop env library_config paths service_ops = Inl e"
  using assms(1)
proof (induction paths arbitrary: service_ops)
  case Nil
  then show ?case by simp
next
  case (Cons p paths)
  obtain pn pi where p: "p = (pn, pi)" by (cases p)
  show ?case
  proof (cases "p = (path_name, path)")
    case True
    then show ?thesis using assms(2) [of service_ops] by auto
  next
    case False
    with Cons.prems have "(path_name, path) \<in> set paths" by simp
    then have "\<And>ops. \<exists>e. paths_loop env library_config paths ops = Inl e"
      by (rule Cons.IH)
    then show ?thesis
      by (auto simp: p split: sum.splits)
  qed
qed

lemma generate_services_error:
  assumes "(path_name, path) \<in> set paths"
    and "http_operation \<in> set HTTP_OPERATIONS"
    and "getattribute path http_operation = Inr (Some op)"
    and "\<And>async_type. \<exists>e. generate_service_operation env library_config http_operation
              path op path_name async_type = Inl e"
    and "include_sync library_config \<or> include_async library_config"
  shows "\<exists>e. generate_services env paths library_config = Inl e"
proof -
  have "\<exists>e. paths_loop env library_config paths [] = Inl e"
    by (rule paths_loop_error [OF assms(1)]) (rule http_loop_error [OF assms(2-5)])
  then show ?thesis
    by (auto simp: generate_services_def)
qed

subsection \<open>A request body without a JSON media type\<close>

text \<open>
  C8. For every operation that declares a request body whose content has no
  \<open>application/json\<close> media type, parameter resolution raises: \<open>generate_params\<close>
  returns no list (when every declared parameter has a declaration, the error is
  the exception \<open>Unknown media type schema type\<close>). The same error leaves
  \<open>generate_service_operation\<close>, so no descriptor is built for the operation, and
  \<open>generate_services\<close> fails when it reaches the operation with a variant enabled.
\<close>

theorem request_body_without_json_is_fatal:
  assumes "requestBody operation = Some rb"
    and "rb_content rb ''application/json'' = None"
  shows "(\<exists>e. generate_params env operation = Inl e
            \<and> generate_service_operation env library_config http_operation path operation
                 path_name async_type = Inl e)
       \<and> ((\<forall>p \<in> set (declared operation). \<exists>d. param_decl env p = Inr d)
            \<longrightarrow> generate_params env operation = Inl (Exception unknown_body_media_type))
       \<and> ((path_name, path) \<in> set paths \<and> http_operation \<in> set HTTP_OPERATIONS
            \<and> getattribute path http_operation = Inr (Some operation)
            \<and> (include_sync library_config \<or> include_async library_config)
            \<longrightarrow> (\<exists>e. generate_services env paths library_config = Inl e))"
proof -
  have fails: "\<exists>e. generate_params env operation = Inl e"
    using assms by (auto simp: generate_params_def split: sum.splits option.splits)
  then obtain e where e: "generate_params env operation = Inl e" ..
  have so: "generate_service_operation env library_config h path operation path_name a = Inl e"
    for h a
    by (rule service_operation_params_error [OF e])
  have exact: "generate_params env operation = Inl (Exception unknown_body_media_type)"
    if "\<forall>p \<in> set (declared operation). \<exists>d. param_decl env p = Inr d"
  proof (cases "parameters operation")
    case None
    then show ?thesis using assms by (simp add: generate_params_def)
  next
    case (Some ps)
    with that obtain out where "params_loop env ps [] = Inr out"
      using params_loop_total [of ps env "[]"] by (auto simp: declared_def)
    then show ?thesis using assms Some by (simp add: generate_params_def)
  qed
  have svcs: "\<exists>e. generate_services env paths library_config = Inl e"
    if "(path_name, path) \<in> set paths" "http_operation \<in> set HTTP_OPERATIONS"
      "getattribute path http_operation = Inr (Some operation)"
      "include_sync library_config \<or> include_async library_config"
    using that(1-3) _ that(4)
    by (rule generate_services_error) (use so in blast)
  show ?thesis
    using e so exact svcs by blast
qed

text \<open>On the operation whose request body is \<open>text/plain\<close> only.\<close>

theorem request_body_without_json_is_fatal_witness:
  "requestBody ex_operation_text_body = Some \<lparr>rb_content = ex_text\<rparr>
   \<and> ex_text ''application/json'' = None
   \<and> generate_params ex_env ex_operation_text_body = Inl (Exception unknown_body_media_type)
   \<and> (\<exists>e. generate_params ex_env ex_operation_text_body = Inl e
         \<and> generate_service_operation ex_env (ex_config True True) ''get''
              (ex_path (Some ex_operation_text_body)) ex_operation_text_body ''/pets'' False
            = Inl e)
   \<and> (\<exists>e. generate_services ex_env [(''/pets'', ex_path (Some ex_operation_text_body))]
              (ex_config True True) = Inl e)"
proof -
  have body: "requestBody ex_operation_text_body = Some \<lparr>rb_content = ex_text\<rparr>"
    by (simp add: ex_operation_text_body_def)
  have nojson: "rb_content \<lparr>rb_content = ex_text\<rparr> ''application/json'' = None"
    by (simp add: ex_text_def)
  have decls: "\<forall>p \<in> set (declared ex_operation_text_body). \<exists>d. param_decl ex_env p = Inr d"
    by (simp add: declared_def ex_operation_text_body_def ex_operation_def)
  have reach: "(''/pets'', ex_path (Some ex_operation_text_body))
                  \<in> set [(''/pets'', ex_path (Some ex_operation_text_body))]
     \<and> ''get'' \<in> set HTTP_OPERATIONS
     \<and> getattribute (ex_path (Some ex_operation_text_body)) ''get''
          = Inr (Some ex_operation_text_body)
     \<and> (include_sync (ex_config True True) \<or> include_async (ex_config True True))"
    by (simp add: HTTP_OPERATIONS_def getattribute_def ex_path_def ex_config_def)
  from request_body_without_json_is_fatal [OF body nojson, of ex_env "ex_config True True"
      "''get''" "ex_path (Some ex_operation_text_body)" "''/pets''" False
      "[(''/pets'', ex_path (Some ex_operation_text_body))]"] decls reach
  show ?thesis using body nojson by auto
qed

subsection \<open>The operation identifier\<close>

text \<open>
  C9. \<open>generate_operation_id\<close> produces a value only for an operation that carries an
  \<open>operationId\<close> (the identifier with every hyphen replaced by an underscore). For an
  operation without one it fails with an attribute error, and so does the
  construction of a descriptor for that operation.
\<close>

theorem operation_id_needs_operationId:
  "(operationId operation = None \<longrightarrow>
      generate_operation_id operation http_op = Inl AttributeError
      \<and> (\<exists>e. generate_service_operation env library_config http_op path operation path_name
                async_type = Inl e))
   \<and> (\<forall>oid. operationId operation = Some oid \<longrightarrow>
         generate_operation_id operation http_op = Inr (replace (CHR ''-'') (CHR ''_'') oid))"
  using service_operation_id_error [of operation env library_config http_op path path_name async_type]
  by (auto simp: generate_operation_id_def)

text \<open>On the operation without \<open>operationId\<close>, and on the operation \<open>list-pets\<close>.\<close>

theorem operation_id_needs_operationId_witness:
  "operationId ex_operation_anonymous = None
   \<and> generate_operation_id ex_operation_anonymous ''get'' = Inl AttributeError
   \<and> (\<exists>e. generate_service_operation ex_env (ex_config True True) ''get''
              (ex_path (Some ex_operation_anonymous)) ex_operation_anonymous ''/pets'' False
            = Inl e)
   \<and> operationId ex_operation = Some ''list-pets''
   \<and> generate_operation_id ex_operation ''get'' = Inr ''list_pets''"
proof -
  have none: "operationId ex_operation_anonymous = None"
    by (simp add: ex_operation_anonymous_def)
  have some: "operationId ex_operation = Some ''list-pets''"
    by (simp add: ex_operation_def)
  have r: "replace (CHR ''-'') (CHR ''_'') ''list-pets'' = ''list_pets''"
    by (simp add: replace_def)
  from operation_id_needs_operationId [of ex_operation_anonymous "''get''" ex_env
      "ex_config True True" "ex_path (Some ex_operation_anonymous)" "''/pets''" False]
    operation_id_needs_operationId [of ex_operation "''get''" ex_env
      "ex_config True True" "ex_path (Some ex_operation)" "''/pets''" False]
    none some r
  show ?thesis by simp
qed

subsection \<open>The successful responses\<close>

text \<open>\<open>good_responses\<close> reads the entries whose key starts with \<open>"2"\<close> and no other; it
  returns a list exactly when \<open>int\<close> accepts each of their keys, and the list then has
  the same responses in the same order.\<close>

lemma good_responses_two_xx: "good_responses (two_xx rs) = good_responses rs"
  by (induction rs) (auto simp: two_xx_def split: sum.splits)

lemma good_responses_no_two_xx: "two_xx rs = [] \<Longrightarrow> good_responses rs = Inr []"
  by (induction rs) (auto simp: two_xx_def split: if_splits)

lemma good_responses_Inr_iff:
  "good_responses rs = Inr xs \<longleftrightarrow>
     list_all2 (\<lambda>(k, r) (n, r'). py_int k = Inr n \<and> r' = r) (two_xx rs) xs"
proof (induction rs arbitrary: xs)
  case Nil
  then show ?case by (auto simp: two_xx_def)
next
  case (Cons kr rs)
  obtain k r where kr: "kr = (k, r)" by (cases kr)
  show ?case
    using Cons.IH
    by (cases "py_int k"; cases "good_responses rs")
       (auto simp: kr list_all2_Cons1 two_xx_def)
qed

lemma good_responses_total:
  "list_all (\<lambda>(k, r). \<exists>n. py_int k = Inr n) (two_xx rs) \<Longrightarrow> \<exists>xs. good_responses rs = Inr xs"
  by (induction rs) (auto simp: two_xx_def)

lemma good_responses_first:
  assumes "two_xx rs = (k, r) # rest"
    and "list_all (\<lambda>(k, r). \<exists>n. py_int k = Inr n) (two_xx rs)"
  shows "\<exists>n xs. py_int k = Inr n \<and> good_responses rs = Inr ((n, r) # xs)"
proof -
  from good_responses_total [OF assms(2)] obtain ys where ys: "good_responses rs = Inr ys" ..
  then have "list_all2 (\<lambda>(k, r) (n, r'). py_int k = Inr n \<and> r' = r) ((k, r) # rest) ys"
    by (simp add: good_responses_Inr_iff assms(1))
  then obtain n xs where "ys = (n, r) # xs" "py_int k = Inr n"
    by (auto simp: list_all2_Cons1)
  with ys show ?thesis by blast
qed

lemma two_xx_head_key:
  assumes "two_xx rs = (k, r) # rest"
  shows "startswith k ''2''"
proof -
  from assms have "(k, r) \<in> set (two_xx rs)" by simp
  then show ?thesis by (auto simp: two_xx_def)
qed

lemma good_responses_head:
  assumes "two_xx rs = (key, response) # rest"
    and "good_responses rs = Inr xs"
  shows "\<exists>code xs'. py_int key = Inr code \<and> xs = (code, response) # xs'"
  using assms by (auto simp: good_responses_Inr_iff list_all2_Cons1)

lemma return_type_from_first:
  assumes "responses operation = Some rs"
    and "good_responses rs = Inr ((code, response) # rest)"
  shows "generate_return_type env operation =
           (case resp_content response of
              None \<Rightarrow> Inr (no_return_type (StatusInt code))
            | Some content \<Rightarrow> return_type_of_media env code (content ''application/json''))"
  using assms by (simp add: generate_return_type_def)

subsection \<open>The choice of the response\<close>

text \<open>
  C4, as amended. When \<open>responses\<close> is absent or has no key that starts with \<open>"2"\<close>,
  the resolver returns no type, the status \<open>"200"\<close> and \<open>complex_type\<close> false. An
  entry whose key does not start with \<open>"2"\<close> never changes the outcome. When every
  key that starts with \<open>"2"\<close> is an integer literal, the first such entry, in the
  order of the mapping, decides: the outcome is that of the operation with this one
  response, and a returned status code is the integer of its key.
\<close>

theorem first_2xx_is_authoritative:
  "(responses operation = None \<longrightarrow>
      generate_return_type env operation =
        Inr \<lparr>type = None, status_code = StatusStr ''200'', complex_type = False,
             list_type = None\<rparr>)
   \<and> (\<forall>rs. responses operation = Some rs \<longrightarrow>
         generate_return_type env operation =
           generate_return_type env (operation\<lparr>responses := Some (two_xx rs)\<rparr>)
         \<and> (two_xx rs = [] \<longrightarrow>
              generate_return_type env operation =
                Inr \<lparr>type = None, status_code = StatusStr ''200'', complex_type = False,
                     list_type = None\<rparr>)
         \<and> (\<forall>k r rest. two_xx rs = (k, r) # rest
                \<and> list_all (\<lambda>(k, r). \<exists>n. py_int k = Inr n) (two_xx rs) \<longrightarrow>
              generate_return_type env operation =
                generate_return_type env (operation\<lparr>responses := Some [(k, r)]\<rparr>)
              \<and> (\<forall>ret. generate_return_type env operation = Inr ret \<longrightarrow>
                    (\<exists>n. py_int k = Inr n \<and> status_code ret = StatusInt n))))"
proof (intro conjI allI impI)
  assume "responses operation = None"
  then show "generate_return_type env operation =
        Inr \<lparr>type = None, status_code = StatusStr ''200'', complex_type = False,
             list_type = None\<rparr>"
    by (simp add: generate_return_type_def no_return_type_def)
next
  fix rs
  assume rs: "responses operation = Some rs"
  show "generate_return_type env operation =
           generate_return_type env (operation\<lparr>responses := Some (two_xx rs)\<rparr>)"
    using rs by (simp add: generate_return_type_def good_responses_two_xx)
  show "generate_return_type env operation =
                Inr \<lparr>type = None, status_code = StatusStr ''200'', complex_type = False,
                     list_type = None\<rparr>" if "two_xx rs = []"
    using rs good_responses_no_two_xx [OF that]
    by (simp add: generate_return_type_def no_return_type_def)
next
  fix rs k r rest
  assume rs: "responses operation = Some rs"
    and h: "two_xx rs = (k, r) # rest
                \<and> list_all (\<lambda>(k, r). \<exists>n. py_int k = Inr n) (two_xx rs)"
  from good_responses_first [of rs k r rest] h obtain n xs where
    n: "py_int k = Inr n" and good: "good_responses rs = Inr ((n, r) # xs)"
    by blast
  have k2: "startswith k ''2''"
    using two_xx_head_key [of rs k r rest] h by simp
  have single: "good_responses [(k, r)] = Inr [(n, r)]"
    using n k2 by simp
  have a: "generate_return_type env operation =
           (case resp_content r of
              None \<Rightarrow> Inr (no_return_type (StatusInt n))
            | Some content \<Rightarrow> return_type_of_media env n (content ''application/json''))"
    by (rule return_type_from_first [OF rs good])
  have b: "generate_return_type env (operation\<lparr>responses := Some [(k, r)]\<rparr>) =
           (case resp_content r of
              None \<Rightarrow> Inr (no_return_type (StatusInt n))
            | Some content \<Rightarrow> return_type_of_media env n (content ''application/json''))"
    using single by (simp add: generate_return_type_def)
  show "generate_return_type env operation =
          generate_return_type env (operation\<lparr>responses := Some [(k, r)]\<rparr>)"
    by (simp add: a b)
  fix ret
  assume ret: "generate_return_type env operation = Inr ret"
  then have "status_code ret = StatusInt n"
    unfolding a
    by (auto simp: no_return_type_def return_type_of_media_def
             split: option.splits schema_or_ref.splits sum.splits)
  then show "\<exists>n. py_int k = Inr n \<and> status_code ret = StatusInt n"
    using n by simp
qed

text \<open>On responses \<open>404\<close>, \<open>200\<close>, \<open>201\<close>; on a single response \<open>404\<close>; on absent
  responses.\<close>

theorem first_2xx_is_authoritative_witness:
  "generate_return_type ex_env (ex_operation\<lparr>responses := Some ex_responses_pet\<rparr>)
     = generate_return_type ex_env
         (ex_operation\<lparr>responses := Some [(''200'', ex_response (Some (ex_json ex_pet_ref)))]\<rparr>)
   \<and> generate_return_type ex_env (ex_operation\<lparr>responses := Some ex_responses_pet\<rparr>)
     = Inr \<lparr>type = Some \<lparr>original_type = ''#/components/schemas/Pet'',
                          converted_type = ''Pet'', import_types = Some [''Pet'']\<rparr>,
            status_code = StatusInt 200, complex_type = True, list_type = None\<rparr>
   \<and> generate_return_type ex_env
       (ex_operation\<lparr>responses := Some [(''404'', ex_response (Some ex_text))]\<rparr>)
     = Inr \<lparr>type = None, status_code = StatusStr ''200'', complex_type = False,
            list_type = None\<rparr>
   \<and> generate_return_type ex_env ex_operation
     = Inr \<lparr>type = None, status_code = StatusStr ''200'', complex_type = False,
            list_type = None\<rparr>"
proof -
  let ?op = "ex_operation\<lparr>responses := Some ex_responses_pet\<rparr>"
  let ?op404 = "ex_operation\<lparr>responses := Some [(''404'', ex_response (Some ex_text))]\<rparr>"
  have rs: "responses ?op = Some ex_responses_pet" by simp
  have two: "two_xx ex_responses_pet
               = [(''200'', ex_response (Some (ex_json ex_pet_ref))), (''201'', ex_response None)]"
    by (simp add: two_xx_def ex_responses_pet_def startswith_def)
  have ints: "list_all (\<lambda>(k, r). \<exists>n. py_int k = Inr n) (two_xx ex_responses_pet)"
    unfolding two by (simp add: eval_strings)
  have res: "generate_return_type ex_env ?op
     = Inr \<lparr>type = Some \<lparr>original_type = ''#/components/schemas/Pet'',
                          converted_type = ''Pet'', import_types = Some [''Pet'']\<rparr>,
            status_code = StatusInt 200, complex_type = True, list_type = None\<rparr>"
    by (simp add: generate_return_type_def return_type_of_media_def ex_responses_pet_def
                  ex_response_def ex_json_def ex_pet_ref_def eval_strings)
  have rs404: "responses ?op404 = Some [(''404'', ex_response (Some ex_text))]" by simp
  have none404: "two_xx [(''404'', ex_response (Some ex_text))] = []"
    by (simp add: two_xx_def startswith_def)
  have absent: "responses ex_operation = None" by (simp add: ex_operation_def)
  from first_2xx_is_authoritative [of ?op ex_env] rs two ints
  have "generate_return_type ex_env ?op
     = generate_return_type ex_env
         (?op\<lparr>responses := Some [(''200'', ex_response (Some (ex_json ex_pet_ref)))]\<rparr>)"
    by blast
  moreover from first_2xx_is_authoritative [of ?op404 ex_env] rs404 none404
  have "generate_return_type ex_env ?op404
     = Inr \<lparr>type = None, status_code = StatusStr ''200'', complex_type = False,
            list_type = None\<rparr>"
    by blast
  moreover from first_2xx_is_authoritative [of ex_operation ex_env] absent
  have "generate_return_type ex_env ex_operation
     = Inr \<lparr>type = None, status_code = StatusStr ''200'', complex_type = False,
            list_type = None\<rparr>"
    by blast
  ultimately show ?thesis using res by simp
qed

text \<open>
  The claim as stated, for every operation, fails where a later key starts with
  \<open>"2"\<close> and is no integer literal, such as the range \<open>2XX\<close>: both entries pass the
  filter, the first one is \<open>200\<close> with a JSON reference, and the resolver raises
  \<open>ValueError\<close>, whereas it returns \<open>Pet\<close> with status 200 on the first entry alone.
\<close>

theorem later_wildcard_key_raises:
  "two_xx [(''200'', ex_response (Some (ex_json ex_pet_ref))), (''2XX'', ex_response None)]
     = [(''200'', ex_response (Some (ex_json ex_pet_ref))), (''2XX'', ex_response None)]
   \<and> generate_return_type ex_env
       (ex_operation\<lparr>responses :=
          Some [(''200'', ex_response (Some (ex_json ex_pet_ref))),
                (''2XX'', ex_response None)]\<rparr>)
     = Inl ValueError
   \<and> generate_return_type ex_env
       (ex_operation\<lparr>responses :=
          Some [(''200'', ex_response (Some (ex_json ex_pet_ref)))]\<rparr>)
     = Inr \<lparr>type = Some \<lparr>original_type = ''#/components/schemas/Pet'',
                          converted_type = ''Pet'', import_types = Some [''Pet'']\<rparr>,
            status_code = StatusInt 200, complex_type = True, list_type = None\<rparr>"
  by (simp add: two_xx_def generate_return_type_def return_type_of_media_def
                ex_response_def ex_json_def ex_pet_ref_def eval_strings)

subsection \<open>A chosen response without JSON\<close>

text \<open>
  C2, as amended. For every operation whose first 2xx response (the first response
  whose key starts with \<open>"2"\<close>) has a content mapping without an \<open>application/json\<close>
  entry, the resolver returns no result: it raises, and when every key that starts
  with \<open>"2"\<close> is an integer literal the error is the exception
  \<open>Unknown media type schema type\<close>. When every key that starts with \<open>"2"\<close> is an
  integer literal and the first 2xx response has no content at all, the resolver
  returns no type, the integer of that response's key as status code and
  \<open>complex_type\<close> false.
\<close>

theorem first_2xx_without_json:
  assumes "responses operation = Some rs"
    and "two_xx rs = (key, response) # rest"
  shows "(resp_content response = None
            \<and> list_all (\<lambda>(k, r). \<exists>n. py_int k = Inr n) (two_xx rs) \<longrightarrow>
          (\<exists>code. py_int key = Inr code
             \<and> generate_return_type env operation =
                 Inr \<lparr>type = None, status_code = StatusInt code, complex_type = False,
                      list_type = None\<rparr>))
       \<and> (\<forall>content. resp_content response = Some content
              \<and> content ''application/json'' = None \<longrightarrow>
            (\<exists>e. generate_return_type env operation = Inl e)
            \<and> (list_all (\<lambda>(k, r). \<exists>n. py_int k = Inr n) (two_xx rs) \<longrightarrow>
                 generate_return_type env operation =
                   Inl (Exception ''Unknown media type schema type'')))"
proof (intro conjI allI impI)
  assume "resp_content response = None
            \<and> list_all (\<lambda>(k, r). \<exists>n. py_int k = Inr n) (two_xx rs)"
  then have none: "resp_content response = None"
    and ints: "list_all (\<lambda>(k, r). \<exists>n. py_int k = Inr n) (two_xx rs)"
    by simp_all
  from good_responses_first [OF assms(2) ints] obtain code xs where
    code: "py_int key = Inr code" and good: "good_responses rs = Inr ((code, response) # xs)"
    by blast
  from return_type_from_first [OF assms(1) good, of env] none
  have "generate_return_type env operation =
          Inr \<lparr>type = None, status_code = StatusInt code, complex_type = False,
               list_type = None\<rparr>"
    by (simp add: no_return_type_def)
  with code show "\<exists>code. py_int key = Inr code
             \<and> generate_return_type env operation =
                 Inr \<lparr>type = None, status_code = StatusInt code, complex_type = False,
                      list_type = None\<rparr>"
    by blast
next
  fix content
  assume h: "resp_content response = Some content \<and> content ''application/json'' = None"
  have raise: "generate_return_type env operation =
                 Inl (Exception ''Unknown media type schema type'')"
    if g: "good_responses rs = Inr xs" for xs
  proof -
    from good_responses_head [OF assms(2) g] obtain code xs' where
      "good_responses rs = Inr ((code, response) # xs')"
      using g by blast
    from return_type_from_first [OF assms(1) this, of env] h show ?thesis
      by (simp add: return_type_of_media_def)
  qed
  show "\<exists>e. generate_return_type env operation = Inl e"
  proof (cases "good_responses rs")
    case (Inl e)
    then show ?thesis using assms(1) by (simp add: generate_return_type_def)
  next
    case (Inr xs)
    then show ?thesis using raise by blast
  qed
  show "generate_return_type env operation =
          Inl (Exception ''Unknown media type schema type'')"
    if "list_all (\<lambda>(k, r). \<exists>n. py_int k = Inr n) (two_xx rs)"
    using good_responses_total [OF that] raise by blast
qed

text \<open>On responses \<open>404\<close> and \<open>204\<close> (no content), and on a response \<open>201\<close> with plain
  text only.\<close>

theorem first_2xx_without_json_witness:
  "generate_return_type ex_env
     (ex_operation\<lparr>responses :=
        Some [(''404'', ex_response (Some ex_text)), (''204'', ex_response None)]\<rparr>)
     = Inr \<lparr>type = None, status_code = StatusInt 204, complex_type = False,
            list_type = None\<rparr>
   \<and> generate_return_type ex_env
       (ex_operation\<lparr>responses := Some [(''201'', ex_response (Some ex_text))]\<rparr>)
     = Inl (Exception ''Unknown media type schema type'')"
proof -
  let ?rs1 = "[(''404'', ex_response (Some ex_text)), (''204'', ex_response None)]"
  let ?rs2 = "[(''201'', ex_response (Some ex_text))]"
  have r1: "responses (ex_operation\<lparr>responses := Some ?rs1\<rparr>) = Some ?rs1"
    and r2: "responses (ex_operation\<lparr>responses := Some ?rs2\<rparr>) = Some ?rs2"
    by simp_all
  have t1: "two_xx ?rs1 = (''204'', ex_response None) # []"
    and t2: "two_xx ?rs2 = (''201'', ex_response (Some ex_text)) # []"
    by (simp_all add: two_xx_def startswith_def)
  have i1: "list_all (\<lambda>(k, r). \<exists>n. py_int k = Inr n) (two_xx ?rs1)"
    and i2: "list_all (\<lambda>(k, r). \<exists>n. py_int k = Inr n) (two_xx ?rs2)"
    unfolding t1 t2 by (simp_all add: eval_strings)
  have k1: "py_int ''204'' = Inr 204"
    by (simp add: eval_strings)
  have c1: "resp_content (ex_response None) = None"
    and c2: "resp_content (ex_response (Some ex_text)) = Some ex_text
             \<and> ex_text ''application/json'' = None"
    by (simp_all add: ex_response_def ex_text_def)
  from first_2xx_without_json [OF r1 t1, of ex_env, THEN conjunct1, rule_format,
      OF conjI [OF c1 i1]] k1
  have a: "generate_return_type ex_env (ex_operation\<lparr>responses := Some ?rs1\<rparr>)
     = Inr \<lparr>type = None, status_code = StatusInt 204, complex_type = False,
            list_type = None\<rparr>"
    by auto
  from first_2xx_without_json [OF r2 t2, of ex_env, THEN conjunct2, rule_format, OF c2,
      THEN conjunct2, rule_format, OF i2]
  have b: "generate_return_type ex_env (ex_operation\<lparr>responses := Some ?rs2\<rparr>)
     = Inl (Exception ''Unknown media type schema type'')" .
  from a b show ?thesis by (rule conjI)
qed

text \<open>
  The claim as stated (no type, the chosen status code, no error) fails on a
  response \<open>200\<close> whose content is \<open>text/plain\<close> only: \<open>content.get\<close> finds nothing, the
  value is no \<open>MediaType\<close>, and the last \<open>else\<close> raises.
\<close>

theorem missing_json_entry_raises:
  "responses (ex_operation\<lparr>responses := Some [(''200'', ex_response (Some ex_text))]\<rparr>)
     = Some [(''200'', ex_response (Some ex_text))]
   \<and> resp_content (ex_response (Some ex_text)) = Some ex_text
   \<and> ex_text ''application/json'' = None
   \<and> generate_return_type ex_env
       (ex_operation\<lparr>responses := Some [(''200'', ex_response (Some ex_text))]\<rparr>)
     = Inl (Exception ''Unknown media type schema type'')"
  by (simp add: generate_return_type_def return_type_of_media_def ex_response_def ex_text_def
                eval_strings)

subsection \<open>An inline schema\<close>

text \<open>
  C3, as amended. For every operation whose keys that start with \<open>"2"\<close> are all
  integer literals and whose first 2xx response carries an inline \<open>application/json\<close>
  schema, converted by the collaborator to \<open>conv\<close>: if the original type of \<open>conv\<close>
  contains \<open>"array"\<close> and its import list has at least one name, the resolver returns
  a result with \<open>list_type\<close> the first name; and in every inline-schema case other
  than \<open>"array"\<close> with an empty import list the resolver returns a result, with the
  conversion as type and the integer of the key as status, that is marked complex
  if and only if the import list has at least one name.
\<close>

theorem inline_schema_list_type_and_complex:
  assumes "responses operation = Some rs"
    and "two_xx rs = (key, response) # rest"
    and "list_all (\<lambda>(k, r). \<exists>n. py_int k = Inr n) (two_xx rs)"
    and "resp_content response = Some content"
    and "content ''application/json'' = Some mt"
    and "media_type_schema mt = IsSchema s"
    and "type_converter env (Some s) True = Inr conv"
  shows "\<exists>code. py_int key = Inr code
       \<and> (\<forall>a as. py_in ''array'' (original_type conv) \<and> import_types conv = Some (a # as)
            \<longrightarrow> generate_return_type env operation =
                  Inr \<lparr>type = Some conv, status_code = StatusInt code, complex_type = True,
                       list_type = Some a\<rparr>)
       \<and> (\<not> (py_in ''array'' (original_type conv) \<and> import_types conv = Some [])
            \<longrightarrow> generate_return_type env operation =
                  Inr \<lparr>type = Some conv, status_code = StatusInt code,
                       complex_type = (\<exists>a as. import_types conv = Some (a # as)),
                       list_type =
                         (if py_in ''array'' (original_type conv)
                          then (case import_types conv of
                                  Some (a # as) \<Rightarrow> Some a
                                | _ \<Rightarrow> None)
                          else None)\<rparr>)
       \<and> (\<forall>ret. generate_return_type env operation = Inr ret \<longrightarrow>
             (complex_type ret \<longleftrightarrow> (\<exists>a as. import_types conv = Some (a # as))))"
proof -
  from good_responses_first [OF assms(2,3)] obtain code xs where
    code: "py_int key = Inr code" and good: "good_responses rs = Inr ((code, response) # xs)"
    by blast
  have eq: "generate_return_type env operation =
          (case list_type_of conv of
             Inl e \<Rightarrow> Inl e
           | Inr lt \<Rightarrow>
               Inr \<lparr>type = Some conv, status_code = StatusInt code,
                    complex_type = (import_types conv \<noteq> None
                                     \<and> length (the (import_types conv)) > 0),
                    list_type = lt\<rparr>)"
    using return_type_from_first [OF assms(1) good, of env] assms(4-7)
    by (simp add: return_type_of_media_def)
  have "(\<forall>a as. py_in ''array'' (original_type conv) \<and> import_types conv = Some (a # as)
            \<longrightarrow> generate_return_type env operation =
                  Inr \<lparr>type = Some conv, status_code = StatusInt code, complex_type = True,
                       list_type = Some a\<rparr>)
       \<and> (\<not> (py_in ''array'' (original_type conv) \<and> import_types conv = Some [])
            \<longrightarrow> generate_return_type env operation =
                  Inr \<lparr>type = Some conv, status_code = StatusInt code,
                       complex_type = (\<exists>a as. import_types conv = Some (a # as)),
                       list_type =
                         (if py_in ''array'' (original_type conv)
                          then (case import_types conv of
                                  Some (a # as) \<Rightarrow> Some a
                                | _ \<Rightarrow> None)
                          else None)\<rparr>)
       \<and> (\<forall>ret. generate_return_type env operation = Inr ret \<longrightarrow>
             (complex_type ret \<longleftrightarrow> (\<exists>a as. import_types conv = Some (a # as))))"
    unfolding eq
    by (cases "import_types conv"; cases "the (import_types conv)")
       (auto simp: list_type_of_def split: sum.splits)
  with code show ?thesis by blast
qed

text \<open>On an array of \<open>Pet\<close>, and on an integer.\<close>

theorem inline_schema_list_type_and_complex_witness:
  "generate_return_type ex_env
     (ex_operation\<lparr>responses := Some (ex_array_response ''array of Pet'')\<rparr>)
     = Inr \<lparr>type = Some \<lparr>original_type = ''array<Pet>'', converted_type = ''List[Pet]'',
                          import_types = Some [''Pet'']\<rparr>,
            status_code = StatusInt 200, complex_type = True, list_type = Some ''Pet''\<rparr>
   \<and> generate_return_type ex_env
       (ex_operation\<lparr>responses := Some (ex_array_response ''integer'')\<rparr>)
     = Inr \<lparr>type = Some \<lparr>original_type = ''integer'', converted_type = ''int'',
                          import_types = None\<rparr>,
            status_code = StatusInt 200, complex_type = False, list_type = None\<rparr>"
proof -
  let ?pet = "\<lparr>original_type = ''array<Pet>'', converted_type = ''List[Pet]'',
               import_types = Some [''Pet'']\<rparr>"
  let ?int = "\<lparr>original_type = ''integer'', converted_type = ''int'',
               import_types = None\<rparr>"
  have rs: "responses (ex_operation\<lparr>responses := Some (ex_array_response s)\<rparr>)
              = Some (ex_array_response s)" for s
    by simp
  have two: "two_xx (ex_array_response s)
              = (''200'', ex_response (Some (ex_json (IsSchema s)))) # []" for s
    by (simp add: ex_array_response_def two_xx_def startswith_def)
  have ints: "list_all (\<lambda>(k, r). \<exists>n. py_int k = Inr n) (two_xx (ex_array_response s))" for s
    unfolding two by (simp add: eval_strings)
  have key: "py_int ''200'' = Inr 200"
    by (simp add: eval_strings)
  have content: "resp_content (ex_response (Some (ex_json (IsSchema s))))
                   = Some (ex_json (IsSchema s))" for s
    by (simp add: ex_response_def)
  have json: "ex_json (IsSchema s) ''application/json''
                = Some \<lparr>media_type_schema = IsSchema s\<rparr>" for s :: string
    by (simp add: ex_json_def)
  have schema: "media_type_schema \<lparr>media_type_schema = IsSchema s\<rparr> = IsSchema s"
    for s :: string
    by simp
  have pet: "type_converter ex_env (Some ''array of Pet'') True = Inr ?pet"
    and int: "type_converter ex_env (Some ''integer'') True = Inr ?int"
    by (simp_all add: ex_env_def ex_type_converter_def)
  have array: "py_in ''array'' (original_type ?pet) \<and> import_types ?pet = Some (''Pet'' # [])"
    by (simp add: startswith_def)
  have plain: "\<not> (py_in ''array'' (original_type ?int) \<and> import_types ?int = Some [])"
    by simp
  have lt: "(if py_in ''array'' (original_type ?int)
             then (case import_types ?int of Some (a # as) \<Rightarrow> Some a | _ \<Rightarrow> None)
             else None) = None"
    and cx: "(\<exists>a as. import_types ?int = Some (a # as)) = False"
    by simp_all
  from inline_schema_list_type_and_complex [OF rs two ints content json schema pet] key array
  have a: "generate_return_type ex_env
     (ex_operation\<lparr>responses := Some (ex_array_response ''array of Pet'')\<rparr>)
     = Inr \<lparr>type = Some ?pet, status_code = StatusInt 200, complex_type = True,
            list_type = Some ''Pet''\<rparr>"
    by auto
  from inline_schema_list_type_and_complex [OF rs two ints content json schema int] key plain
  have "generate_return_type ex_env
       (ex_operation\<lparr>responses := Some (ex_array_response ''integer'')\<rparr>)
     = Inr \<lparr>type = Some ?int, status_code = StatusInt 200,
            complex_type = (\<exists>a as. import_types ?int = Some (a # as)),
            list_type = (if py_in ''array'' (original_type ?int)
                         then (case import_types ?int of Some (a # as) \<Rightarrow> Some a | _ \<Rightarrow> None)
                         else None)\<rparr>"
    by auto
  then have b: "generate_return_type ex_env
       (ex_operation\<lparr>responses := Some (ex_array_response ''integer'')\<rparr>)
     = Inr \<lparr>type = Some ?int, status_code = StatusInt 200, complex_type = False,
            list_type = None\<rparr>"
    by (simp only: lt cx)
  from a b show ?thesis by (rule conjI)
qed

text \<open>
  The claim as stated, for every operation whose first 2xx response carries an
  inline schema, fails in two places. With a later key \<open>2XX\<close> the conversion of an
  array of \<open>Pet\<close> reports the name \<open>Pet\<close>, yet the resolver raises \<open>ValueError\<close> and
  sets no \<open>list_type\<close>. With an array whose import list is empty there is no result
  to be marked complex or not: the resolver raises \<open>IndexError\<close>.
\<close>

theorem inline_schema_without_result:
  "type_converter ex_env (Some ''array of Pet'') True
     = Inr \<lparr>original_type = ''array<Pet>'', converted_type = ''List[Pet]'',
            import_types = Some [''Pet'']\<rparr>
   \<and> py_in ''array'' ''array<Pet>''
   \<and> two_xx [(''200'', ex_response (Some (ex_json (IsSchema ''array of Pet'')))),
              (''2XX'', ex_response None)]
     = [(''200'', ex_response (Some (ex_json (IsSchema ''array of Pet'')))),
        (''2XX'', ex_response None)]
   \<and> generate_return_type ex_env
       (ex_operation\<lparr>responses :=
          Some [(''200'', ex_response (Some (ex_json (IsSchema ''array of Pet'')))),
                (''2XX'', ex_response None)]\<rparr>)
     = Inl ValueError
   \<and> type_converter ex_env (Some ''array of integer'') True
     = Inr \<lparr>original_type = ''array<integer>'', converted_type = ''List[int]'',
            import_types = Some []\<rparr>
   \<and> generate_return_type ex_env
       (ex_operation\<lparr>responses :=
          Some [(''200'', ex_response (Some (ex_json (IsSchema ''array of integer''))))]\<rparr>)
     = Inl IndexError"
  by (simp add: two_xx_def generate_return_type_def return_type_of_media_def list_type_of_def
                ex_response_def ex_json_def ex_env_def ex_type_converter_def eval_strings)

subsection \<open>An array with an empty import list\<close>

text \<open>
  C10. The array branch reads \<open>import_types[0]\<close> whenever \<open>import_types\<close> is a list. For
  an inline 2xx JSON schema whose conversion has an original type that contains
  \<open>"array"\<close> and an empty import list, \<open>generate_return_type\<close> fails with an index
  error: it returns no result and raises none of its own exceptions.
\<close>

theorem empty_import_list_index_error:
  assumes "responses operation = Some rs"
    and "good_responses rs = Inr ((code, response) # rest)"
    and "resp_content response = Some content"
    and "content ''application/json'' = Some mt"
    and "media_type_schema mt = IsSchema s"
    and "type_converter env (Some s) True = Inr conv"
    and "py_in ''array'' (original_type conv)"
    and "import_types conv = Some []"
  shows "generate_return_type env operation = Inl IndexError"
  using return_type_from_first [OF assms(1,2), of env] assms(3-8)
  by (simp add: return_type_of_media_def list_type_of_def)

text \<open>On an array of integers, for which the example collaborator reports no import.\<close>

theorem empty_import_list_index_error_witness:
  "type_converter ex_env (Some ''array of integer'') True
     = Inr \<lparr>original_type = ''array<integer>'', converted_type = ''List[int]'',
            import_types = Some []\<rparr>
   \<and> py_in ''array'' ''array<integer>''
   \<and> generate_return_type ex_env
       (ex_operation\<lparr>responses := Some (ex_array_response ''array of integer'')\<rparr>)
     = Inl IndexError"
proof -
  let ?conv = "\<lparr>original_type = ''array<integer>'', converted_type = ''List[int]'',
                import_types = Some []\<rparr>"
  let ?s = "''array of integer''"
  have rs: "responses (ex_operation\<lparr>responses := Some (ex_array_response ?s)\<rparr>)
              = Some (ex_array_response ?s)"
    by simp
  have good: "good_responses (ex_array_response ?s)
              = Inr [(200, ex_response (Some (ex_json (IsSchema ?s))))]"
    by (simp add: ex_array_response_def eval_strings)
  have content: "resp_content (ex_response (Some (ex_json (IsSchema ?s))))
                   = Some (ex_json (IsSchema ?s))"
    by (simp add: ex_response_def)
  have json: "ex_json (IsSchema ?s) ''application/json''
                = Some \<lparr>media_type_schema = IsSchema ?s\<rparr>"
    by (simp add: ex_json_def)
  have schema: "media_type_schema \<lparr>media_type_schema = IsSchema ?s\<rparr> = IsSchema ?s"
    by simp
  have conv: "type_converter ex_env (Some ?s) True = Inr ?conv"
    by (simp add: ex_env_def ex_type_converter_def)
  have array: "py_in ''array'' (original_type ?conv)"
    by (simp add: startswith_def)
  have empty: "import_types ?conv = Some []"
    by simp
  from empty_import_list_index_error [OF rs good content json schema conv array empty]
  show ?thesis using conv array by simp
qed

subsection \<open>Grouping into services\<close>

text \<open>Every descriptor the loops collect belongs to an enabled variant.\<close>

lemma service_operation_async_client:
  "generate_service_operation env library_config http_operation path op path_name async_type
     = Inr so \<Longrightarrow> so_async_client so = async_type"
  by (auto simp: generate_service_operation_def Let_def
           split: sum.splits option.splits list.splits error.splits)

lemma append_operation_enabled:
  assumes "append_operation env library_config path_name path http_operation op service_ops
             = Inr service_ops1"
    and "list_all (variant_enabled library_config) service_ops"
  shows "list_all (variant_enabled library_config) service_ops1"
  using assms
  by (auto simp: append_operation_def variant_enabled_def
           dest: service_operation_async_client split: if_splits sum.splits)

lemma http_loop_enabled:
  "http_loop env library_config path_name path hs service_ops = Inr service_ops1 \<Longrightarrow>
   list_all (variant_enabled library_config) service_ops \<Longrightarrow>
   list_all (variant_enabled library_config) service_ops1"
proof (induction hs arbitrary: service_ops)
  case Nil
  then show ?case by simp
next
  case (Cons h hs)
  then show ?case
    by (auto split: sum.splits option.splits dest: append_operation_enabled)
qed

lemma paths_loop_enabled:
  "paths_loop env library_config paths service_ops = Inr service_ops1 \<Longrightarrow>
   list_all (variant_enabled library_config) service_ops \<Longrightarrow>
   list_all (variant_enabled library_config) service_ops1"
proof (induction paths arbitrary: service_ops)
  case Nil
  then show ?case by simp
next
  case (Cons p paths)
  then show ?case
    by (cases p) (auto split: sum.splits dest: http_loop_enabled)
qed

lemma length_tag_set: "length (tag_set service_ops) = card (so_tag ` set service_ops)"
  by (simp add: tag_set_def length_remdups_card_conv)

text \<open>
  C1, as amended. Whenever \<open>generate_services\<close> returns, it returns exactly two
  services for each distinct tag among the generated descriptors, whatever the
  configuration enables: first, for each tag, the synchronous service of that tag
  (named after the tag, holding the synchronous descriptors that carry it), then,
  for each tag, its asynchronous service. When one of the two variants is disabled,
  the services of that variant are still produced, with no operations; when both
  are disabled there are no descriptors, no tags and no services.
\<close>

theorem generate_services_two_per_tag:
  assumes "generate_services env paths library_config = Inr services"
  shows "\<exists>service_ops tag_list.
           paths_loop env library_config paths [] = Inr service_ops
         \<and> distinct tag_list
         \<and> set tag_list = so_tag ` set service_ops
         \<and> services =
             map (\<lambda>tag.
                    \<lparr>svc_file_name = py_str tag @ ''_service'',
                     svc_operations =
                       filter (\<lambda>so. so_tag so = tag \<and> \<not> so_async_client so) service_ops,
                     svc_content =
                       join [CHR 0x0A]
                         (map so_content
                            (filter (\<lambda>so. so_tag so = tag \<and> \<not> so_async_client so)
                               service_ops)),
                     svc_async_client = False,
                     svc_library_import = library_name library_config\<rparr>) tag_list
             @ map (\<lambda>tag.
                    \<lparr>svc_file_name = ''async_'' @ py_str tag @ ''_service'',
                     svc_operations =
                       filter (\<lambda>so. so_tag so = tag \<and> so_async_client so) service_ops,
                     svc_content =
                       join [CHR 0x0A]
                         (map so_content
                            (filter (\<lambda>so. so_tag so = tag \<and> so_async_client so)
                               service_ops)),
                     svc_async_client = True,
                     svc_library_import = library_name library_config\<rparr>) tag_list
         \<and> length services = 2 * card (so_tag ` set service_ops)
         \<and> length (filter (\<lambda>s. \<not> svc_async_client s) services)
             = card (so_tag ` set service_ops)
         \<and> length (filter svc_async_client services) = card (so_tag ` set service_ops)
         \<and> (\<not> include_sync library_config \<longrightarrow>
              list_all (\<lambda>s. svc_async_client s \<or> svc_operations s = []) services)
         \<and> (\<not> include_async library_config \<longrightarrow>
              list_all (\<lambda>s. \<not> svc_async_client s \<or> svc_operations s = []) services)
         \<and> (\<not> include_sync library_config \<and> \<not> include_async library_config \<longrightarrow>
              service_ops = [] \<and> services = [])"
proof -
  from assms obtain service_ops where
    loop: "paths_loop env library_config paths [] = Inr service_ops"
    and services: "services = services_of library_config service_ops"
    by (auto simp: generate_services_def split: sum.splits)
  have enabled: "list_all (variant_enabled library_config) service_ops"
    using paths_loop_enabled [OF loop] by simp
  have tags: "distinct (tag_set service_ops)"
    "set (tag_set service_ops) = so_tag ` set service_ops"
    by (simp_all add: tag_set_def)
  have explicit: "services =
             map (\<lambda>tag.
                    \<lparr>svc_file_name = py_str tag @ ''_service'',
                     svc_operations =
                       filter (\<lambda>so. so_tag so = tag \<and> \<not> so_async_client so) service_ops,
                     svc_content =
                       join [CHR 0x0A]
                         (map so_content
                            (filter (\<lambda>so. so_tag so = tag \<and> \<not> so_async_client so)
                               service_ops)),
                     svc_async_client = False,
                     svc_library_import = library_name library_config\<rparr>)
                 (tag_set service_ops)
             @ map (\<lambda>tag.
                    \<lparr>svc_file_name = ''async_'' @ py_str tag @ ''_service'',
                     svc_operations =
                       filter (\<lambda>so. so_tag so = tag \<and> so_async_client so) service_ops,
                     svc_content =
                       join [CHR 0x0A]
                         (map so_content
                            (filter (\<lambda>so. so_tag so = tag \<and> so_async_client so)
                               service_ops)),
                     svc_async_client = True,
                     svc_library_import = library_name library_config\<rparr>)
                 (tag_set service_ops)"
    unfolding services services_of_def sync_service_def async_service_def ..
  have sync: "filter (\<lambda>s. \<not> svc_async_client s) services
                = map (sync_service library_config service_ops) (tag_set service_ops)"
    by (simp add: services services_of_def filter_map comp_def sync_service_def
                  async_service_def)
  have async: "filter svc_async_client services
                = map (async_service library_config service_ops) (tag_set service_ops)"
    by (simp add: services services_of_def filter_map comp_def sync_service_def
                  async_service_def)
  have no_sync: "list_all (\<lambda>s. svc_async_client s \<or> svc_operations s = []) services"
    if "\<not> include_sync library_config"
  proof -
    from that enabled have "\<forall>so \<in> set service_ops. so_async_client so"
      by (auto simp: list_all_iff variant_enabled_def split: if_splits)
    then show ?thesis
      by (auto simp: services services_of_def list_all_iff sync_service_def
                     async_service_def filter_empty_conv)
  qed
  have no_async: "list_all (\<lambda>s. \<not> svc_async_client s \<or> svc_operations s = []) services"
    if "\<not> include_async library_config"
  proof -
    from that enabled have "\<forall>so \<in> set service_ops. \<not> so_async_client so"
      by (auto simp: list_all_iff variant_enabled_def split: if_splits)
    then show ?thesis
      by (auto simp: services services_of_def list_all_iff sync_service_def
                     async_service_def filter_empty_conv)
  qed
  have neither: "service_ops = [] \<and> services = []"
    if "\<not> include_sync library_config \<and> \<not> include_async library_config"
  proof -
    from that enabled have "\<forall>so \<in> set service_ops. False"
      by (auto simp: list_all_iff variant_enabled_def split: if_splits)
    then have "service_ops = []" by (cases service_ops) auto
    then show ?thesis by (simp add: services services_of_def tag_set_def)
  qed
  have l1: "length services = 2 * card (so_tag ` set service_ops)"
    by (simp add: services services_of_def length_tag_set)
  have l2: "length (filter (\<lambda>s. \<not> svc_async_client s) services)
                   = card (so_tag ` set service_ops)"
    by (simp add: sync length_tag_set)
  have l3: "length (filter svc_async_client services) = card (so_tag ` set service_ops)"
    by (simp add: async length_tag_set)
  show ?thesis
    apply (rule exI [of _ service_ops])
    apply (rule exI [of _ "tag_set service_ops"])
    apply (intro conjI impI)
    subgoal by (rule loop)
    subgoal by (rule tags(1))
    subgoal by (rule tags(2))
    subgoal by (rule explicit)
    subgoal by (rule l1)
    subgoal by (rule l2)
    subgoal by (rule l3)
    subgoal by (rule no_sync)
    subgoal by (rule no_async)
    subgoal using neither by blast
    subgoal using neither by blast
    done
qed

text \<open>On one path with one tagged operation: with both variants enabled there are two
  descriptors, one tag and two services; with both disabled there is no service.\<close>

lemma ex_paths_file_names:
  "map_sum id (map svc_file_name) (generate_services ex_env ex_paths (ex_config True True))
     = Inr [''pets_service'', ''async_pets_service'']"
  by (simp add: eval_services)

theorem generate_services_two_per_tag_witness:
  "(\<exists>services service_ops.
      generate_services ex_env ex_paths (ex_config True True) = Inr services
    \<and> paths_loop ex_env (ex_config True True) ex_paths [] = Inr service_ops
    \<and> map so_tag service_ops = [Some ''pets'', Some ''pets'']
    \<and> length services = 2 * card (so_tag ` set service_ops)
    \<and> map svc_file_name services = [''pets_service'', ''async_pets_service'']
    \<and> length services = 2)
   \<and> generate_services ex_env ex_paths (ex_config False False) = Inr []"
proof -
  have "map_sum id (map svc_file_name)
          (generate_services ex_env ex_paths (ex_config True True))
        = Inr [''pets_service'', ''async_pets_service'']"
    by (simp add: ex_paths_file_names)
  then obtain services where
    services: "generate_services ex_env ex_paths (ex_config True True) = Inr services"
    and names: "map svc_file_name services = [''pets_service'', ''async_pets_service'']"
    by (cases "generate_services ex_env ex_paths (ex_config True True)") auto
  from generate_services_two_per_tag [OF services] obtain service_ops where
    loop: "paths_loop ex_env (ex_config True True) ex_paths [] = Inr service_ops"
    and count: "length services = 2 * card (so_tag ` set service_ops)"
    by (elim exE conjE) (rule that; assumption)
  have "map_sum id (map so_tag) (paths_loop ex_env (ex_config True True) ex_paths [])
          = Inr [Some ''pets'', Some ''pets'']"
    by (simp add: eval_services)
  with loop have tags: "map so_tag service_ops = [Some ''pets'', Some ''pets'']"
    by simp
  from names have len: "length services = 2"
    using length_map [of svc_file_name services] by simp
  have both: "\<exists>services service_ops.
      generate_services ex_env ex_paths (ex_config True True) = Inr services
    \<and> paths_loop ex_env (ex_config True True) ex_paths [] = Inr service_ops
    \<and> map so_tag service_ops = [Some ''pets'', Some ''pets'']
    \<and> length services = 2 * card (so_tag ` set service_ops)
    \<and> map svc_file_name services = [''pets_service'', ''async_pets_service'']
    \<and> length services = 2"
  proof (intro exI conjI)
    show "generate_services ex_env ex_paths (ex_config True True) = Inr services"
      by (rule services)
    show "paths_loop ex_env (ex_config True True) ex_paths [] = Inr service_ops"
      by (rule loop)
    show "map so_tag service_ops = [Some ''pets'', Some ''pets'']" by (rule tags)
    show "length services = 2 * card (so_tag ` set service_ops)" by (rule count)
    show "map svc_file_name services = [''pets_service'', ''async_pets_service'']"
      by (rule names)
    show "length services = 2" by (rule len)
  qed
  have off: "\<not> include_sync (ex_config False False) \<and> \<not> include_async (ex_config False False)"
    by (simp add: ex_config_def)
  have "map_sum id length (generate_services ex_env ex_paths (ex_config False False)) = Inr 0"
    by (simp add: eval_services)
  then obtain none where
    none: "generate_services ex_env ex_paths (ex_config False False) = Inr none"
    by (cases "generate_services ex_env ex_paths (ex_config False False)") auto
  from generate_services_two_per_tag [OF none] off have "none = []"
    by (elim exE conjE) simp
  with none have neither: "generate_services ex_env ex_paths (ex_config False False) = Inr []"
    by simp
  from both neither show ?thesis by (rule conjI)
qed

text \<open>
  The claim as stated (as many services as distinct tags when only one variant is
  enabled) fails on the same path with the synchronous variant alone: one
  descriptor, one tag, and two services, the asynchronous one with no operations.
\<close>

theorem one_variant_still_two_per_tag:
  "include_sync (ex_config True False) \<and> \<not> include_async (ex_config True False)
   \<and> map_sum id (map so_tag) (paths_loop ex_env (ex_config True False) ex_paths [])
       = Inr [Some ''pets'']
   \<and> map_sum id (map svc_file_name) (generate_services ex_env ex_paths (ex_config True False))
       = Inr [''pets_service'', ''async_pets_service'']
   \<and> map_sum id (map svc_operations)
        (generate_services ex_env ex_paths (ex_config True False))
       = map_sum id (\<lambda>service_ops. [service_ops, []])
           (paths_loop ex_env (ex_config True False) ex_paths [])
   \<and> map_sum id length (generate_services ex_env ex_paths (ex_config True False)) = Inr 2"
  by (simp add: eval_services)

end
